theory Spec2Isabelle
  imports Main
begin

section \<open>Application errors\<close>

text \<open>
  Modelled from the spec: \<^verbatim>\<open>model.AppError\<close> and \<^verbatim>\<open>model.NewAppError\<close> are declared in the
  \<^verbatim>\<open>model\<close> package. An application error is typed and carries, besides the place it was
  raised, a message key, a detail text and an HTTP-style status code: the arguments of the
  call \<^verbatim>\<open>model.NewAppError(where, id, params, details, status)\<close> in \<^verbatim>\<open>app/app.go\<close> (the
  parameter map is nil there). The detail of a failed integer parse is the text of a
  \<^verbatim>\<open>*strconv.NumError\<close>; it is kept structured (the function, the input and the kind).
\<close>

datatype num_error = ErrSyntax | ErrRange

datatype error_detail = Detail string | NumErrorText string string num_error

record app_error =
  Where :: string
  ErrorId :: string
  DetailedError :: error_detail
  StatusCode :: int

definition StatusInternalServerError :: int where
  "StatusInternalServerError = 500"

definition NewAppError :: "string \<Rightarrow> string \<Rightarrow> error_detail \<Rightarrow> int \<Rightarrow> app_error" where
  "NewAppError w i details status =
     \<lparr>Where = w, ErrorId = i, DetailedError = details, StatusCode = status\<rparr>"

section \<open>The store boundary and other external collaborators\<close>

text \<open>
  Modelled from the spec: \<^verbatim>\<open>model.System\<close> and \<^verbatim>\<open>model.StringMap\<close> are declared in the
  \<^verbatim>\<open>model\<close> package. The first is a row of the system-properties table, built in
  \<^verbatim>\<open>app/app.go\<close> from a name and a value; the second is the map \<^verbatim>\<open>System().Get()\<close> answers
  with, a Go \<^verbatim>\<open>map[string]string\<close>, where reading a missing key gives the empty string.
\<close>

record system =
  Name :: string
  Value :: string

type_synonym string_map = "string \<rightharpoonup> string"

definition lookup :: "string_map \<Rightarrow> string \<Rightarrow> string" where
  "lookup props k = (case props k of None \<Rightarrow> [] | Some v \<Rightarrow> v)"

text \<open>
  Modelled from the spec: the two fixed keys are constants of the \<^verbatim>\<open>model\<close> package; no
  statement below depends on their spelling.
\<close>

definition SYSTEM_DIAGNOSTIC_ID :: string where
  "SYSTEM_DIAGNOSTIC_ID = ''DiagnosticId''"

definition SYSTEM_INSTALLATION_DATE_KEY :: string where
  "SYSTEM_INSTALLATION_DATE_KEY = ''InstallationDate''"

text \<open>
  The store and the random identifier source are external: the functions below take any
  implementation of them, over any state \<open>'x\<close> of the outside world. A store operation
  answers with an error or with its data (\<^verbatim>\<open>result.Err\<close>, \<^verbatim>\<open>result.Data\<close>) and may change
  that state.
\<close>

record 'x env =
  SystemGet :: "'x \<Rightarrow> (app_error + string_map) \<times> 'x"
  SystemSave :: "system \<Rightarrow> 'x \<Rightarrow> app_error option \<times> 'x"
  SystemGetByName :: "string \<Rightarrow> 'x \<Rightarrow> (app_error + system) \<times> 'x"
  NewId :: "'x \<Rightarrow> string \<times> 'x"

text \<open>Every call across the boundary is recorded, oldest first, with what was sent.\<close>

datatype ext_call =
  CallSystemGet
| CallSystemSave system
| CallSystemGetByName string
| CallNewId

section \<open>The Elasticsearch lifecycle controller\<close>

subsection \<open>Configuration snapshots and licenses\<close>

text \<open>
  Modelled from the spec: the declaration of \<^verbatim>\<open>model.Config\<close> is not part of
  \<^verbatim>\<open>app/app.go\<close>. The search settings group has an enabled flag, a connection URL, a
  username, a password and a sniff flag; \<^verbatim>\<open>StartElasticsearch\<close> reads each through a
  pointer that configuration loading has set, so the fields are plain values here.
\<close>

record elasticsearch_settings =
  ConnectionUrl :: string
  Username :: string
  Password :: string
  EnableIndexing :: bool
  Sniff :: bool

record config =
  ElasticsearchSettings :: elasticsearch_settings

text \<open>
  Modelled from the spec: \<^verbatim>\<open>model.License\<close> is declared elsewhere; the controller only
  asks whether \<^verbatim>\<open>a.License()\<close> is nil.
\<close>

datatype license = License string

subsection \<open>Background tasks\<close>

text \<open>
  Every closure that \<^verbatim>\<open>StartElasticsearch\<close> hands to \<^verbatim>\<open>a.Srv.Go\<close> is a straight sequence of
  statements of one shape,
  \<^verbatim>\<open>if err := a.Elasticsearch.X(); err != nil { mlog.Error(err.Error()) }\<close>
  with \<^verbatim>\<open>X\<close> either \<^verbatim>\<open>Start\<close> or \<^verbatim>\<open>Stop\<close>. A task is the list of these statements in
  program order; \<open>run_task\<close> below gives them their meaning.
\<close>

datatype es_call = Start | Stop

type_synonym task = "es_call list"

text \<open>
  The Elasticsearch capability (\<^verbatim>\<open>einterfaces.ElasticsearchInterface\<close>) is an external
  collaborator: any implementation over any state \<open>'e\<close>, each operation returning
  \<^verbatim>\<open>*model.AppError\<close> (nil on success). \<^verbatim>\<open>StartElasticsearch\<close> calls through the slot
  \<^verbatim>\<open>a.Elasticsearch\<close> without testing it, so the slot is taken to be filled.
\<close>

record 'e elasticsearch =
  es_Start :: "'e \<Rightarrow> app_error option \<times> 'e"
  es_Stop :: "'e \<Rightarrow> app_error option \<times> 'e"

fun invoke :: "'e elasticsearch \<Rightarrow> es_call \<Rightarrow> 'e \<Rightarrow> app_error option \<times> 'e" where
  "invoke es Start st = es_Start es st"
| "invoke es Stop st = es_Stop es st"

text \<open>The error log: one entry per \<^verbatim>\<open>mlog.Error(err.Error())\<close>, oldest first.\<close>

type_synonym error_log = "app_error list"

definition run_stmt :: "'e elasticsearch \<Rightarrow> es_call \<Rightarrow> 'e \<times> error_log \<Rightarrow> 'e \<times> error_log" where
  "run_stmt es c w =
     (case w of (st, lg) \<Rightarrow>
        (case invoke es c st of
           (None, st') \<Rightarrow> (st', lg)
         | (Some err, st') \<Rightarrow> (st', lg @ [err])))"

definition run_task :: "'e elasticsearch \<Rightarrow> task \<Rightarrow> 'e \<times> error_log \<Rightarrow> 'e \<times> error_log" where
  "run_task es t w = fold (run_stmt es) t w"

subsection \<open>The server state and the listener registries\<close>

text \<open>
  Modelled from the spec: \<^verbatim>\<open>Server\<close>, \<^verbatim>\<open>Server.Go\<close>, \<^verbatim>\<open>AddConfigListener\<close> and
  \<^verbatim>\<open>AddLicenseListener\<close> are declared outside \<^verbatim>\<open>app/app.go\<close>. \<^verbatim>\<open>Go\<close> dispatches a closure
  onto a supervised background task and returns at once: the task joins \<open>goroutines\<close>, the
  tasks dispatched so far, oldest first. The registries are append-only sequences of
  callbacks, insertion order being invocation order. \<open>Config\<close> and \<open>licenseValue\<close> are
  what \<^verbatim>\<open>a.Config()\<close> and \<^verbatim>\<open>a.License()\<close> read.

  The type parameter \<open>'x\<close> is the state of the world behind the store boundary and
  \<open>calls\<close> the record of the calls made across it; both belong to the diagnostic
  identifier and the installation date further down.
\<close>

record 'x server =
  diagnosticId :: string
  Store :: 'x
  calls :: "ext_call list"
  goroutines :: "task list"
  Config :: config
  licenseValue :: "license option"

definition Go :: "task \<Rightarrow> 'x server \<Rightarrow> 'x server" where
  "Go f s = s\<lparr>goroutines := goroutines s @ [f]\<rparr>"

type_synonym 'x config_listener = "config \<Rightarrow> config \<Rightarrow> 'x server \<Rightarrow> 'x server"
type_synonym 'x license_listener = "'x server \<Rightarrow> 'x server"

record 'x app =
  Srv :: "'x server"
  configListeners :: "'x config_listener list"
  licenseListeners :: "'x license_listener list"

definition AddConfigListener :: "'x config_listener \<Rightarrow> 'x app \<Rightarrow> 'x app" where
  "AddConfigListener l a = a\<lparr>configListeners := configListeners a @ [l]\<rparr>"

definition AddLicenseListener :: "'x license_listener \<Rightarrow> 'x app \<Rightarrow> 'x app" where
  "AddLicenseListener l a = a\<lparr>licenseListeners := licenseListeners a @ [l]\<rparr>"

subsection \<open>StartElasticsearch\<close>

text \<open>
  The config listener of \<^verbatim>\<open>StartElasticsearch\<close> (lines 141-166). The closure of the third
  branch captures \<^verbatim>\<open>oldConfig\<close> and tests its enabled flag before it calls anything; the
  snapshot is immutable, so the test is decided when the closure is built.
\<close>

definition esConfigListener :: "'x config_listener" where
  "esConfigListener oldConfig newConfig s =
     (if \<not> EnableIndexing (ElasticsearchSettings oldConfig)
         \<and> EnableIndexing (ElasticsearchSettings newConfig)
      then Go [Start] s
      else if EnableIndexing (ElasticsearchSettings oldConfig)
         \<and> \<not> EnableIndexing (ElasticsearchSettings newConfig)
      then Go [Stop] s
      else if Password (ElasticsearchSettings oldConfig) \<noteq> Password (ElasticsearchSettings newConfig)
         \<or> Username (ElasticsearchSettings oldConfig) \<noteq> Username (ElasticsearchSettings newConfig)
         \<or> ConnectionUrl (ElasticsearchSettings oldConfig) \<noteq> ConnectionUrl (ElasticsearchSettings newConfig)
         \<or> Sniff (ElasticsearchSettings oldConfig) \<noteq> Sniff (ElasticsearchSettings newConfig)
      then Go (if EnableIndexing (ElasticsearchSettings oldConfig) then [Stop, Start] else []) s
      else s)"

text \<open>The license listener (lines 168-182).\<close>

definition esLicenseListener :: "'x license_listener" where
  "esLicenseListener s =
     (if licenseValue s \<noteq> None then Go [Start] s else Go [Stop] s)"

text \<open>
  \<^verbatim>\<open>StartElasticsearch\<close> (lines 134-183): the initial dispatch, then the two registrations.
\<close>

definition StartElasticsearch :: "'x app \<Rightarrow> 'x app" where
  "StartElasticsearch a =
     AddLicenseListener esLicenseListener
       (AddConfigListener esConfigListener
          (a\<lparr>Srv := Go [Start] (Srv a)\<rparr>))"

text \<open>
  Modelled from the spec (section 4.1): the function that applies a configuration change
  is declared outside \<^verbatim>\<open>app/app.go\<close>. It invokes every registered handler synchronously,
  in registration order, on the caller's thread.
\<close>

definition onConfigChange :: "config \<Rightarrow> config \<Rightarrow> 'x app \<Rightarrow> 'x app" where
  "onConfigChange oldConfig newConfig a =
     a\<lparr>Srv := fold (\<lambda>l. l oldConfig newConfig) (configListeners a) (Srv a)\<rparr>"

text \<open>
  Observations used by the statements: the connection parameters of a snapshot pair
  differ; the tasks a step has added to the dispatched ones.
\<close>

definition connectionChanged :: "config \<Rightarrow> config \<Rightarrow> bool" where
  "connectionChanged oldConfig newConfig =
     (ConnectionUrl (ElasticsearchSettings oldConfig) \<noteq> ConnectionUrl (ElasticsearchSettings newConfig)
      \<or> Username (ElasticsearchSettings oldConfig) \<noteq> Username (ElasticsearchSettings newConfig)
      \<or> Password (ElasticsearchSettings oldConfig) \<noteq> Password (ElasticsearchSettings newConfig)
      \<or> Sniff (ElasticsearchSettings oldConfig) \<noteq> Sniff (ElasticsearchSettings newConfig))"

definition dispatched :: "'x server \<Rightarrow> 'x server \<Rightarrow> task list" where
  "dispatched s s' = drop (length (goroutines s)) (goroutines s')"

section \<open>The lazy persisted identifier\<close>

text \<open>
  The calls across the boundary, as the server makes them: the outside world moves on and
  the call is recorded.
\<close>

definition System_Get :: "'x env \<Rightarrow> 'x server \<Rightarrow> (app_error + string_map) \<times> 'x server" where
  "System_Get env s =
     (case SystemGet env (Store s) of
        (r, x) \<Rightarrow> (r, s\<lparr>Store := x, calls := calls s @ [CallSystemGet]\<rparr>))"

definition System_Save :: "'x env \<Rightarrow> system \<Rightarrow> 'x server \<Rightarrow> app_error option \<times> 'x server" where
  "System_Save env row s =
     (case SystemSave env row (Store s) of
        (r, x) \<Rightarrow> (r, s\<lparr>Store := x, calls := calls s @ [CallSystemSave row]\<rparr>))"

definition System_GetByName :: "'x env \<Rightarrow> string \<Rightarrow> 'x server \<Rightarrow> (app_error + system) \<times> 'x server" where
  "System_GetByName env k s =
     (case SystemGetByName env k (Store s) of
        (r, x) \<Rightarrow> (r, s\<lparr>Store := x, calls := calls s @ [CallSystemGetByName k]\<rparr>))"

definition model_NewId :: "'x env \<Rightarrow> 'x server \<Rightarrow> string \<times> 'x server" where
  "model_NewId env s =
     (case NewId env (Store s) of
        (i, x) \<Rightarrow> (i, s\<lparr>Store := x, calls := calls s @ [CallNewId]\<rparr>))"

text \<open>\<^verbatim>\<open>EnsureDiagnosticId\<close> (lines 100-116). The result of \<^verbatim>\<open>Save\<close> is received and dropped.\<close>

definition EnsureDiagnosticId :: "'x env \<Rightarrow> 'x server \<Rightarrow> 'x server" where
  "EnsureDiagnosticId env s =
     (if diagnosticId s \<noteq> [] then s
      else
        (case System_Get env s of
           (Inl err, s1) \<Rightarrow> s1
         | (Inr props, s1) \<Rightarrow>
             (let ident = lookup props SYSTEM_DIAGNOSTIC_ID in
              if length ident = 0 then
                (case model_NewId env s1 of
                   (fresh, s2) \<Rightarrow>
                     (case System_Save env \<lparr>Name = SYSTEM_DIAGNOSTIC_ID, Value = fresh\<rparr> s2 of
                        (saved, s3) \<Rightarrow> s3\<lparr>diagnosticId := fresh\<rparr>))
              else s1\<lparr>diagnosticId := ident\<rparr>)))"

section \<open>The installation date\<close>

text \<open>
  \<^verbatim>\<open>strconv.ParseUint\<close> and \<^verbatim>\<open>strconv.ParseInt\<close> of Go's standard library, at base 10 and
  bit size 64, transcribed from the library: the loop reads one byte at a time, a byte
  that is not a decimal digit is a syntax error, and the accumulator is an unsigned 64-bit
  integer whose wrap-around the loop tests for.
\<close>

definition maxUint64 :: nat where
  "maxUint64 = 2 ^ 64 - 1"

fun parseUintLoop :: "nat \<Rightarrow> string \<Rightarrow> num_error + nat" where
  "parseUintLoop n [] = Inr n"
| "parseUintLoop n (c # cs) =
     (if 48 \<le> (of_char c :: nat) \<and> (of_char c :: nat) \<le> 57 then
        (let d = (of_char c :: nat) - 48 in
         if n \<ge> maxUint64 div 10 + 1 then Inl ErrRange
         else
           (let m = (n * 10) mod 2 ^ 64;
                n1 = (m + d) mod 2 ^ 64
            in if n1 < m \<or> n1 > maxUint64 then Inl ErrRange else parseUintLoop n1 cs))
      else Inl ErrSyntax)"

definition ParseUint :: "string \<Rightarrow> num_error + nat" where
  "ParseUint s = (if s = [] then Inl ErrSyntax else parseUintLoop 0 s)"

definition ParseInt :: "string \<Rightarrow> num_error + int" where
  "ParseInt s =
     (if s = [] then Inl ErrSyntax
      else
        (let neg = (hd s = CHR ''-'');
             s1 = (if hd s = CHR ''+'' \<or> hd s = CHR ''-'' then tl s else s)
         in
           (case ParseUint s1 of
              Inl ErrSyntax \<Rightarrow> Inl ErrSyntax
            | r \<Rightarrow>
                (let un = (case r of Inr u \<Rightarrow> u | Inl e \<Rightarrow> maxUint64);
                     cutoff = (2 :: nat) ^ 63
                 in if \<not> neg \<and> un \<ge> cutoff then Inl ErrRange
                    else if neg \<and> un > cutoff then Inl ErrRange
                    else Inr (if neg then - int un else int un)))))"

text \<open>
  \<^verbatim>\<open>getSystemInstallDate\<close> (lines 185-196). The Go function returns the pair
  \<^verbatim>\<open>(int64, *model.AppError)\<close>; the model returns the same pair, beside the server state.
\<close>

definition getSystemInstallDate :: "'x env \<Rightarrow> 'x server \<Rightarrow> (int \<times> app_error option) \<times> 'x server" where
  "getSystemInstallDate env s =
     (case System_GetByName env SYSTEM_INSTALLATION_DATE_KEY s of
        (Inl err, s1) \<Rightarrow> ((0, Some err), s1)
      | (Inr systemData, s1) \<Rightarrow>
          (case ParseInt (Value systemData) of
             Inl err \<Rightarrow>
               ((0, Some (NewAppError ''getSystemInstallDate''
                            ''app.system_install_date.parse_int.app_error''
                            (NumErrorText ''ParseInt'' (Value systemData) err)
                            StatusInternalServerError)), s1)
           | Inr v \<Rightarrow> ((v, None), s1)))"

section \<open>The job subsystem bootstrapper\<close>

text \<open>
  The six optional factories are package-level variables set by whichever build registers
  them (nil otherwise); each takes the application handle and answers with a job
  interface. The job objects, the worker set and the scheduler set are types of the
  \<^verbatim>\<open>jobs\<close> package and stay abstract (\<open>'j\<close>, \<open>'w\<close>, \<open>'c\<close>).
\<close>

record ('a, 'j) job_interfaces =
  jobsDataRetentionJobInterface :: "('a \<Rightarrow> 'j) option"
  jobsMessageExportJobInterface :: "('a \<Rightarrow> 'j) option"
  jobsElasticsearchAggregatorInterface :: "('a \<Rightarrow> 'j) option"
  jobsElasticsearchIndexerInterface :: "('a \<Rightarrow> 'j) option"
  jobsLdapSyncInterface :: "('a \<Rightarrow> 'j) option"
  jobsMigrationsInterface :: "('a \<Rightarrow> 'j) option"

record ('j, 'w, 'c) job_server =
  DataRetentionJob :: "'j option"
  MessageExportJob :: "'j option"
  ElasticsearchAggregator :: "'j option"
  ElasticsearchIndexer :: "'j option"
  LdapSync :: "'j option"
  Migrations :: "'j option"
  Workers :: "'w option"
  Schedulers :: "'c option"

text \<open>
  Modelled from the spec: \<^verbatim>\<open>jobs.NewJobServer\<close> is declared in the \<^verbatim>\<open>jobs\<close> package. It
  constructs a job server with no producer attached and no worker or scheduler set.
\<close>

definition NewJobServer :: "('j, 'w, 'c) job_server" where
  "NewJobServer =
     \<lparr>DataRetentionJob = None, MessageExportJob = None, ElasticsearchAggregator = None,
      ElasticsearchIndexer = None, LdapSync = None, Migrations = None,
      Workers = None, Schedulers = None\<rparr>"

text \<open>
  \<^verbatim>\<open>initJobs\<close> (lines 68-90): the value of \<^verbatim>\<open>s.Jobs\<close> when it returns; it assigns no other
  field of the server. \<open>fakeApp\<close> is the handle \<^verbatim>\<open>s.FakeApp()\<close>; \<open>InitWorkers\<close> and
  \<open>InitSchedulers\<close> are the two methods of the job server, taken as given.
\<close>

definition initJobs ::
  "('a, 'j) job_interfaces \<Rightarrow> 'a \<Rightarrow> (('j, 'w, 'c) job_server \<Rightarrow> 'w) \<Rightarrow>
   (('j, 'w, 'c) job_server \<Rightarrow> 'c) \<Rightarrow> ('j, 'w, 'c) job_server" where
  "initJobs g fakeApp InitWorkers InitSchedulers =
     (let j0 = NewJobServer;
          j1 = (case jobsDataRetentionJobInterface g of
                  None \<Rightarrow> j0 | Some f \<Rightarrow> j0\<lparr>DataRetentionJob := Some (f fakeApp)\<rparr>);
          j2 = (case jobsMessageExportJobInterface g of
                  None \<Rightarrow> j1 | Some f \<Rightarrow> j1\<lparr>MessageExportJob := Some (f fakeApp)\<rparr>);
          j3 = (case jobsElasticsearchAggregatorInterface g of
                  None \<Rightarrow> j2 | Some f \<Rightarrow> j2\<lparr>ElasticsearchAggregator := Some (f fakeApp)\<rparr>);
          j4 = (case jobsElasticsearchIndexerInterface g of
                  None \<Rightarrow> j3 | Some f \<Rightarrow> j3\<lparr>ElasticsearchIndexer := Some (f fakeApp)\<rparr>);
          j5 = (case jobsLdapSyncInterface g of
                  None \<Rightarrow> j4 | Some f \<Rightarrow> j4\<lparr>LdapSync := Some (f fakeApp)\<rparr>);
          j6 = (case jobsMigrationsInterface g of
                  None \<Rightarrow> j5 | Some f \<Rightarrow> j5\<lparr>Migrations := Some (f fakeApp)\<rparr>);
          j7 = j6\<lparr>Workers := Some (InitWorkers j6)\<rparr>
      in j7\<lparr>Schedulers := Some (InitSchedulers j7)\<rparr>)"

section \<open>Concrete collaborators for running the model\<close>

text \<open>
  An in-memory world: the rows of the system table, the error the next read or write is
  to fail with (if any), and the identifiers the random source will hand out.
\<close>

record mem_world =
  rows :: "(string \<times> string) list"
  getError :: "app_error option"
  saveError :: "app_error option"
  idSource :: "string list"

definition mem_env :: "mem_world env" where
  "mem_env =
     \<lparr>SystemGet = (\<lambda>x. case getError x of
                      Some e \<Rightarrow> (Inl e, x)
                    | None \<Rightarrow> (Inr (map_of (rows x)), x)),
      SystemSave = (\<lambda>row x. case saveError x of
                      Some e \<Rightarrow> (Some e, x)
                    | None \<Rightarrow> (None, x\<lparr>rows := (Name row, Value row) # rows x\<rparr>)),
      SystemGetByName = (\<lambda>k x. case getError x of
                      Some e \<Rightarrow> (Inl e, x)
                    | None \<Rightarrow>
                        (case map_of (rows x) k of
                           None \<Rightarrow> (Inl (NewAppError ''SqlSystemStore.GetByName''
                                           ''store.sql_system.get_by_name.app_error''
                                           (Detail k) 500), x)
                         | Some v \<Rightarrow> (Inr \<lparr>Name = k, Value = v\<rparr>, x))),
      NewId = (\<lambda>x. case idSource x of
                      [] \<Rightarrow> (''id'', x)
                    | i # rest \<Rightarrow> (i, x\<lparr>idSource := rest\<rparr>))\<rparr>"

definition dbDown :: app_error where
  "dbDown = NewAppError ''SqlSystemStore.Get'' ''store.sql_system.get.app_error''
              (Detail ''connection refused'') 500"

text \<open>
  A capability whose state counts the calls it has received; \<^verbatim>\<open>Start\<close> succeeds and
  \<^verbatim>\<open>Stop\<close> fails.
\<close>

definition esDown :: app_error where
  "esDown = NewAppError ''Elasticsearch.Stop'' ''ent.elasticsearch.stop.error''
              (Detail ''no client'') 500"

definition countingEs :: "(es_call list) elasticsearch" where
  "countingEs =
     \<lparr>es_Start = (\<lambda>st. (None, st @ [Start])),
      es_Stop = (\<lambda>st. (Some esDown, st @ [Stop]))\<rparr>"

text \<open>
  What a task leaves behind, read off the capability alone: the state after each of its
  calls has been made once, in order, and the errors those calls returned, in order.
\<close>

fun state_after :: "'e elasticsearch \<Rightarrow> task \<Rightarrow> 'e \<Rightarrow> 'e" where
  "state_after es [] st = st"
| "state_after es (c # cs) st = state_after es cs (snd (invoke es c st))"

fun failures :: "'e elasticsearch \<Rightarrow> task \<Rightarrow> 'e \<Rightarrow> app_error list" where
  "failures es [] st = []"
| "failures es (c # cs) st =
     (case fst (invoke es c st) of None \<Rightarrow> [] | Some err \<Rightarrow> [err])
       @ failures es cs (snd (invoke es c st))"

text \<open>A configuration snapshot with the given enabled flag and password, and a fresh server.\<close>

definition cfg :: "bool \<Rightarrow> string \<Rightarrow> config" where
  "cfg enabled pw =
     \<lparr>ElasticsearchSettings =
        \<lparr>ConnectionUrl = ''http://es:9200'', Username = ''elastic'', Password = pw,
         EnableIndexing = enabled, Sniff = True\<rparr>\<rparr>"

definition world0 :: mem_world where
  "world0 = \<lparr>rows = [], getError = None, saveError = None, idSource = [''fresh1'', ''fresh2'']\<rparr>"

definition srv0 :: "mem_world server" where
  "srv0 =
     \<lparr>diagnosticId = [], Store = world0, calls = [], goroutines = [],
      Config = cfg False ''pw'', licenseValue = None\<rparr>"

text \<open>The log entries one returned value adds: none for nil, the error otherwise.\<close>

definition logged :: "app_error option \<Rightarrow> error_log" where
  "logged r = (case r of None \<Rightarrow> [] | Some err \<Rightarrow> [err])"

text \<open>An application with the fresh server and empty registries.\<close>

definition app0 :: "mem_world app" where
  "app0 = \<lparr>Srv = srv0, configListeners = [], licenseListeners = []\<rparr>"

text \<open>
  Servers for the cases of the identifier: one already cached, one stored, a failing
  read, a failing write.
\<close>

definition srvCached :: "mem_world server" where
  "srvCached = srv0\<lparr>diagnosticId := ''abc''\<rparr>"

definition srvStored :: "mem_world server" where
  "srvStored = srv0\<lparr>Store := world0\<lparr>rows := [(''DiagnosticId'', ''stored'')]\<rparr>\<rparr>"

definition srvReadFails :: "mem_world server" where
  "srvReadFails = srv0\<lparr>Store := world0\<lparr>getError := Some dbDown\<rparr>\<rparr>"

definition srvSaveFails :: "mem_world server" where
  "srvSaveFails = srv0\<lparr>Store := world0\<lparr>saveError := Some dbDown\<rparr>\<rparr>"

text \<open>
  A base-10 64-bit integer, said without the parser: an optional sign, then one or more
  decimal digits, whose value lies between \<open>- 2 ^ 63\<close> and \<open>2 ^ 63 - 1\<close>. \<open>int64_text\<close>
  gives that value, or \<open>None\<close> when the text is not such an integer.
\<close>

definition isDigit :: "char \<Rightarrow> bool" where
  "isDigit c = (48 \<le> (of_char c :: nat) \<and> (of_char c :: nat) \<le> 57)"

fun decimal :: "nat \<Rightarrow> string \<Rightarrow> nat" where
  "decimal n [] = n"
| "decimal n (c # cs) = decimal (n * 10 + ((of_char c :: nat) - 48)) cs"

definition int64_text :: "string \<Rightarrow> int option" where
  "int64_text s =
     (case s of
        [] \<Rightarrow> None
      | c # cs \<Rightarrow>
          (let body = (if c = CHR ''+'' \<or> c = CHR ''-'' then cs else s);
               v = (if c = CHR ''-'' then - int (decimal 0 body) else int (decimal 0 body))
           in if body \<noteq> [] \<and> list_all isDigit body \<and> - (2 ^ 63) \<le> v \<and> v < 2 ^ 63
              then Some v else None))"

text \<open>A server whose system table holds the given installation date.\<close>

definition srvInstalled :: "string \<Rightarrow> mem_world server" where
  "srvInstalled v = srv0\<lparr>Store := world0\<lparr>rows := [(''InstallationDate'', v)]\<rparr>\<rparr>"

text \<open>
  The producers attached to a job server, in slot order, standing in for the worker and
  scheduler sets; two settings of the six factories.
\<close>

definition attached :: "('j, 'w, 'c) job_server \<Rightarrow> 'j list" where
  "attached js =
     concat (map (\<lambda>slot. case slot of None \<Rightarrow> [] | Some j \<Rightarrow> [j])
       [DataRetentionJob js, MessageExportJob js, ElasticsearchAggregator js,
        ElasticsearchIndexer js, LdapSync js, Migrations js])"

definition noFactories :: "(string, string) job_interfaces" where
  "noFactories =
     \<lparr>jobsDataRetentionJobInterface = None, jobsMessageExportJobInterface = None,
      jobsElasticsearchAggregatorInterface = None, jobsElasticsearchIndexerInterface = None,
      jobsLdapSyncInterface = None, jobsMigrationsInterface = None\<rparr>"

definition someFactories :: "(string, string) job_interfaces" where
  "someFactories =
     noFactories\<lparr>jobsDataRetentionJobInterface := Some (\<lambda>a. a @ '':retention''),
                 jobsLdapSyncInterface := Some (\<lambda>a. a @ '':ldap'')\<rparr>"

section \<open>Properties of the Elasticsearch lifecycle controller\<close>

lemma esConfigListener_eq:
  "esConfigListener oldConfig newConfig s =
     s\<lparr>goroutines := goroutines s @
        (if \<not> EnableIndexing (ElasticsearchSettings oldConfig) \<and> EnableIndexing (ElasticsearchSettings newConfig)
           then [[Start]]
         else if EnableIndexing (ElasticsearchSettings oldConfig) \<and> \<not> EnableIndexing (ElasticsearchSettings newConfig)
           then [[Stop]]
         else if connectionChanged oldConfig newConfig
           then (if EnableIndexing (ElasticsearchSettings oldConfig) then [[Stop, Start]] else [[]])
         else [])\<rparr>"
  by (auto simp: esConfigListener_def connectionChanged_def Go_def)

lemma esLicenseListener_eq:
  "esLicenseListener s =
     s\<lparr>goroutines := goroutines s @ (if licenseValue s \<noteq> None then [[Start]] else [[Stop]])\<rparr>"
  by (simp add: esLicenseListener_def Go_def)

lemma run_task_eq: "run_task es t (st, lg) = (state_after es t st, lg @ failures es t st)"
  unfolding run_task_def
  by (induction t arbitrary: st lg) (auto simp: run_stmt_def split: prod.splits option.splits)

lemma cfg_facts:
  "connectionChanged (cfg e1 ''a'') (cfg e2 ''b'')"
  "\<not> connectionChanged (cfg e1 ''a'') (cfg e2 ''a'')"
  "connectionChanged (cfg e1 ''x'') (cfg e2 ''y'')"
  "EnableIndexing (ElasticsearchSettings (cfg e1 p)) = e1"
  by (simp_all add: cfg_def connectionChanged_def)

lemma StartElasticsearch_eq:
  "StartElasticsearch a =
     a\<lparr>Srv := (Srv a)\<lparr>goroutines := goroutines (Srv a) @ [[Start]]\<rparr>,
       configListeners := configListeners a @ [esConfigListener],
       licenseListeners := licenseListeners a @ [esLicenseListener]\<rparr>"
  by (simp add: StartElasticsearch_def AddConfigListener_def AddLicenseListener_def Go_def)

text \<open>
  C1. The config listener that \<^verbatim>\<open>StartElasticsearch\<close> registers decides from the pair
  (old, new) alone. With \<open>eo\<close>, \<open>en\<close> the two enabled flags and \<open>ch\<close> "some connection
  parameter differs", the tasks it dispatches are: the single task calling Start exactly
  when \<open>\<not> eo \<and> en\<close>; the single task calling Stop exactly when \<open>eo \<and> \<not> en\<close>; the
  single task calling Stop then Start exactly when \<open>eo \<and> en \<and> ch\<close>; and in every other
  case nothing that calls the capability at all (with both flags off and a changed
  connection parameter the closure is still handed to \<^verbatim>\<open>Go\<close>, and its guard on the old
  flag makes it call nothing). The listener changes nothing of the server but the
  dispatched tasks, and any two pairs with the same \<open>(eo, en, ch)\<close>, on any server, lead
  to the same dispatch. This listener is the one \<^verbatim>\<open>StartElasticsearch\<close> appends to the
  registry.
\<close>

theorem config_listener_transition_table:
  fixes oldConfig newConfig :: config and s :: "'x server" and a :: "'z app"
  defines "eo \<equiv> EnableIndexing (ElasticsearchSettings oldConfig)"
      and "en \<equiv> EnableIndexing (ElasticsearchSettings newConfig)"
      and "ch \<equiv> connectionChanged oldConfig newConfig"
      and "s' \<equiv> esConfigListener oldConfig newConfig s"
  shows "((dispatched s s' = [[Start]]) = (\<not> eo \<and> en))
       \<and> ((dispatched s s' = [[Stop]]) = (eo \<and> \<not> en))
       \<and> ((dispatched s s' = [[Stop, Start]]) = (eo \<and> en \<and> ch))
       \<and> (\<not> (\<not> eo \<and> en) \<and> \<not> (eo \<and> \<not> en) \<and> \<not> (eo \<and> en \<and> ch) \<longrightarrow>
            concat (dispatched s s') = [] \<and> dispatched s s' = (if ch then [[]] else []))
       \<and> s' = s\<lparr>goroutines := goroutines s @ dispatched s s'\<rparr>
       \<and> (\<forall>oldConfig' newConfig' (t :: 'y server).
            EnableIndexing (ElasticsearchSettings oldConfig') = eo
            \<and> EnableIndexing (ElasticsearchSettings newConfig') = en
            \<and> connectionChanged oldConfig' newConfig' = ch \<longrightarrow>
            dispatched t (esConfigListener oldConfig' newConfig' t) = dispatched s s')
       \<and> configListeners (StartElasticsearch a) = configListeners a @ [esConfigListener]"
  unfolding eo_def en_def ch_def s'_def
  by (simp add: esConfigListener_eq dispatched_def StartElasticsearch_eq)

theorem config_listener_transition_table_witness:
  "dispatched srv0 (esConfigListener (cfg False ''a'') (cfg True ''a'') srv0) = [[Start]]
   \<and> dispatched srv0 (esConfigListener (cfg True ''a'') (cfg False ''b'') srv0) = [[Stop]]
   \<and> dispatched srv0 (esConfigListener (cfg True ''a'') (cfg True ''b'') srv0) = [[Stop, Start]]
   \<and> concat (dispatched srv0 (esConfigListener (cfg False ''a'') (cfg False ''b'') srv0)) = []
   \<and> dispatched srv0 (esConfigListener (cfg True ''a'') (cfg True ''a'') srv0) = []
   \<and> dispatched srv0 (esConfigListener (cfg True ''x'') (cfg True ''y'') srv0)
       = dispatched srv0 (esConfigListener (cfg True ''a'') (cfg True ''b'') srv0)"
proof -
  note c = cfg_facts
  have 1: "dispatched srv0 (esConfigListener (cfg False ''a'') (cfg True ''a'') srv0) = [[Start]]"
    using config_listener_transition_table [of srv0 "cfg False ''a''" "cfg True ''a''", THEN conjunct1]
    by (simp add: c)
  have 2: "dispatched srv0 (esConfigListener (cfg True ''a'') (cfg False ''b'') srv0) = [[Stop]]"
    using config_listener_transition_table [of srv0 "cfg True ''a''" "cfg False ''b''",
            THEN conjunct2, THEN conjunct1]
    by (simp add: c)
  note t3 = config_listener_transition_table [of srv0 "cfg True ''a''" "cfg True ''b''",
              where 'y = mem_world, THEN conjunct2, THEN conjunct2]
  have 3: "dispatched srv0 (esConfigListener (cfg True ''a'') (cfg True ''b'') srv0) = [[Stop, Start]]"
    using t3 [THEN conjunct1] by (simp add: c)
  note t4 = config_listener_transition_table [of srv0 "cfg False ''a''" "cfg False ''b''",
              THEN conjunct2, THEN conjunct2, THEN conjunct2, THEN conjunct1]
  have 4: "concat (dispatched srv0 (esConfigListener (cfg False ''a'') (cfg False ''b'') srv0)) = []"
    using t4 by (simp add: c)
  note t5 = config_listener_transition_table [of srv0 "cfg True ''a''" "cfg True ''a''",
              THEN conjunct2, THEN conjunct2, THEN conjunct2, THEN conjunct1]
  have 5: "dispatched srv0 (esConfigListener (cfg True ''a'') (cfg True ''a'') srv0) = []"
    using t5 by (simp add: c)
  have 6: "dispatched srv0 (esConfigListener (cfg True ''x'') (cfg True ''y'') srv0)
       = dispatched srv0 (esConfigListener (cfg True ''a'') (cfg True ''b'') srv0)"
    using t3 [THEN conjunct2, THEN conjunct2, THEN conjunct2, THEN conjunct1,
              THEN spec, THEN spec, THEN spec,
              of "cfg True ''x''" "cfg True ''y''" srv0]
    by (simp add: c)
  from 1 2 3 4 5 6 show ?thesis by blast
qed

text \<open>
  C2. When indexing stays enabled and a connection parameter changes, the listener
  dispatches exactly one task, and that task is Stop followed by Start: run against any
  implementation of the capability, Start is invoked on the state that the completed Stop
  left, and the log receives Stop's error (if any) before Start's. Fired through the
  registry after \<^verbatim>\<open>StartElasticsearch\<close> on an application without other config listeners,
  one such change dispatches that one task and nothing else.
\<close>

theorem restart_is_one_sequential_task:
  assumes "EnableIndexing (ElasticsearchSettings oldConfig)"
      and "EnableIndexing (ElasticsearchSettings newConfig)"
      and "connectionChanged oldConfig newConfig"
  shows "dispatched s (esConfigListener oldConfig newConfig s) = [[Stop, Start]]
       \<and> (\<forall>(es :: 'e elasticsearch) st lg r1 st1 r2 st2.
            es_Stop es st = (r1, st1) \<and> es_Start es st1 = (r2, st2) \<longrightarrow>
            run_task es [Stop, Start] (st, lg) = (st2, lg @ logged r1 @ logged r2))
       \<and> (configListeners a = [] \<longrightarrow>
            dispatched (Srv (StartElasticsearch a))
              (Srv (onConfigChange oldConfig newConfig (StartElasticsearch a))) = [[Stop, Start]])"
  using assms
  by (simp add: esConfigListener_eq dispatched_def run_task_eq logged_def
        StartElasticsearch_eq onConfigChange_def)

theorem restart_is_one_sequential_task_witness:
  "dispatched srv0 (esConfigListener (cfg True ''a'') (cfg True ''b'') srv0) = [[Stop, Start]]
   \<and> run_task countingEs [Stop, Start] ([], []) = ([Stop, Start], [esDown])
   \<and> dispatched (Srv (StartElasticsearch app0))
        (Srv (onConfigChange (cfg True ''a'') (cfg True ''b'') (StartElasticsearch app0)))
      = [[Stop, Start]]"
proof -
  have h1: "EnableIndexing (ElasticsearchSettings (cfg True ''a''))"
    and h2: "EnableIndexing (ElasticsearchSettings (cfg True ''b''))"
    and h3: "connectionChanged (cfg True ''a'') (cfg True ''b'')"
    by (simp_all add: cfg_facts)
  note t = restart_is_one_sequential_task [OF h1 h2 h3, of srv0 app0, where 'e = "es_call list"]
  have 1: "dispatched srv0 (esConfigListener (cfg True ''a'') (cfg True ''b'') srv0) = [[Stop, Start]]"
    using t [THEN conjunct1] .
  have 2: "run_task countingEs [Stop, Start] ([], []) = ([Stop, Start], [esDown])"
    using t [THEN conjunct2, THEN conjunct1, THEN spec, THEN spec, THEN spec, THEN spec,
             THEN spec, THEN spec, THEN spec,
             of countingEs "[]" "Some esDown" "[Stop]" None "[Stop, Start]" "[]"]
    by (simp add: countingEs_def logged_def)
  have 3: "dispatched (Srv (StartElasticsearch app0))
        (Srv (onConfigChange (cfg True ''a'') (cfg True ''b'') (StartElasticsearch app0)))
      = [[Stop, Start]]"
    using t [THEN conjunct2, THEN conjunct2] by (simp add: app0_def)
  from 1 2 3 show ?thesis by blast
qed

text \<open>
  C3. The license listener dispatches the single task calling Start when a license is
  present and the single task calling Stop when it is absent; one call in all, never
  both; it changes nothing else of the server, and two servers that agree on the
  presence of a license get the same dispatch. This listener is the one
  \<^verbatim>\<open>StartElasticsearch\<close> appends to the registry.
\<close>

theorem license_listener_start_or_stop:
  fixes s :: "'x server" and a :: "'z app"
  shows "(licenseValue s \<noteq> None \<longrightarrow> dispatched s (esLicenseListener s) = [[Start]])
       \<and> (licenseValue s = None \<longrightarrow> dispatched s (esLicenseListener s) = [[Stop]])
       \<and> length (concat (dispatched s (esLicenseListener s))) = 1
       \<and> esLicenseListener s = s\<lparr>goroutines := goroutines s @ dispatched s (esLicenseListener s)\<rparr>
       \<and> (\<forall>t :: 'y server. (licenseValue t = None) = (licenseValue s = None) \<longrightarrow>
            dispatched t (esLicenseListener t) = dispatched s (esLicenseListener s))
       \<and> licenseListeners (StartElasticsearch a) = licenseListeners a @ [esLicenseListener]"
  by (simp add: esLicenseListener_eq dispatched_def StartElasticsearch_eq)

theorem license_listener_start_or_stop_witness:
  "dispatched (srv0\<lparr>licenseValue := Some (License ''E20'')\<rparr>)
      (esLicenseListener (srv0\<lparr>licenseValue := Some (License ''E20'')\<rparr>)) = [[Start]]
   \<and> dispatched srv0 (esLicenseListener srv0) = [[Stop]]
   \<and> dispatched (srv0\<lparr>licenseValue := Some (License ''E10''), diagnosticId := ''d''\<rparr>)
        (esLicenseListener (srv0\<lparr>licenseValue := Some (License ''E10''), diagnosticId := ''d''\<rparr>))
      = dispatched (srv0\<lparr>licenseValue := Some (License ''E20'')\<rparr>)
          (esLicenseListener (srv0\<lparr>licenseValue := Some (License ''E20'')\<rparr>))"
proof -
  note t = license_listener_start_or_stop [of "srv0\<lparr>licenseValue := Some (License ''E20'')\<rparr>",
             where 'y = mem_world]
  have 1: "dispatched (srv0\<lparr>licenseValue := Some (License ''E20'')\<rparr>)
      (esLicenseListener (srv0\<lparr>licenseValue := Some (License ''E20'')\<rparr>)) = [[Start]]"
    using t [THEN conjunct1] by simp
  have 2: "dispatched srv0 (esLicenseListener srv0) = [[Stop]]"
    using license_listener_start_or_stop [of srv0, THEN conjunct2, THEN conjunct1]
    by (simp add: srv0_def)
  have 3: "dispatched (srv0\<lparr>licenseValue := Some (License ''E10''), diagnosticId := ''d''\<rparr>)
        (esLicenseListener (srv0\<lparr>licenseValue := Some (License ''E10''), diagnosticId := ''d''\<rparr>))
      = dispatched (srv0\<lparr>licenseValue := Some (License ''E20'')\<rparr>)
          (esLicenseListener (srv0\<lparr>licenseValue := Some (License ''E20'')\<rparr>))"
    using t [THEN conjunct2, THEN conjunct2, THEN conjunct2, THEN conjunct2, THEN conjunct1,
             THEN spec,
             of "srv0\<lparr>licenseValue := Some (License ''E10''), diagnosticId := ''d''\<rparr>"]
    by simp
  from 1 2 3 show ?thesis by blast
qed

text \<open>
  C9. \<^verbatim>\<open>StartElasticsearch\<close> dispatches one task calling Start, whatever the configuration
  and the license of the application, and appends one config listener and one license
  listener to the registries; it does nothing else.
\<close>

theorem start_elasticsearch_initial_start:
  "StartElasticsearch a =
     a\<lparr>Srv := (Srv a)\<lparr>goroutines := goroutines (Srv a) @ [[Start]]\<rparr>,
       configListeners := configListeners a @ [esConfigListener],
       licenseListeners := licenseListeners a @ [esLicenseListener]\<rparr>
   \<and> dispatched (Srv a) (Srv (StartElasticsearch a)) = [[Start]]"
  by (simp add: StartElasticsearch_eq dispatched_def)

theorem start_elasticsearch_initial_start_witness:
  "dispatched (Srv app0) (Srv (StartElasticsearch app0)) = [[Start]]
   \<and> EnableIndexing (ElasticsearchSettings (Config (Srv app0))) = False
   \<and> licenseValue (Srv app0) = None
   \<and> length (configListeners (StartElasticsearch app0)) = 1
   \<and> length (licenseListeners (StartElasticsearch app0)) = 1"
proof -
  have 1: "dispatched (Srv app0) (Srv (StartElasticsearch app0)) = [[Start]]"
    using start_elasticsearch_initial_start [of app0, THEN conjunct2] .
  have 2: "length (configListeners (StartElasticsearch app0)) = 1
           \<and> length (licenseListeners (StartElasticsearch app0)) = 1"
    using start_elasticsearch_initial_start [of app0, THEN conjunct1]
    by (simp add: app0_def)
  have 3: "EnableIndexing (ElasticsearchSettings (Config (Srv app0))) = False
           \<and> licenseValue (Srv app0) = None"
    by (simp add: app0_def srv0_def cfg_def)
  from 1 2 3 show ?thesis by blast
qed

text \<open>
  C8. Run against any implementation of the capability, a dispatched task makes each of
  its calls once, in order, whether or not an earlier call failed, and the only thing an
  error leaves behind is its entry in the error log: the outcome is the state after the
  calls and the log extended by the returned errors. The listeners and
  \<^verbatim>\<open>StartElasticsearch\<close> themselves only add tasks to the dispatched ones; what they
  return does not depend on the capability.
\<close>

theorem start_stop_errors_are_logged_only:
  fixes es :: "'e elasticsearch" and s :: "'x server"
  shows "run_task es t (st, lg) = (state_after es t st, lg @ failures es t st)
       \<and> esConfigListener oldConfig newConfig s
           = s\<lparr>goroutines := goroutines s @ dispatched s (esConfigListener oldConfig newConfig s)\<rparr>
       \<and> esLicenseListener s
           = s\<lparr>goroutines := goroutines s @ dispatched s (esLicenseListener s)\<rparr>
       \<and> Srv (StartElasticsearch a) = (Srv a)\<lparr>goroutines := goroutines (Srv a) @ [[Start]]\<rparr>"
  by (simp add: run_task_eq esConfigListener_eq esLicenseListener_eq dispatched_def
        StartElasticsearch_eq)

theorem start_stop_errors_are_logged_only_witness:
  "run_task countingEs [Stop, Start] ([], []) = ([Stop, Start], [esDown])
   \<and> run_task countingEs [Stop] ([], []) = ([Stop], [esDown])
   \<and> run_task countingEs [Start] ([], []) = ([Start], [])"
  using start_stop_errors_are_logged_only [of countingEs "[Stop, Start]" "[]" "[]", THEN conjunct1]
        start_stop_errors_are_logged_only [of countingEs "[Stop]" "[]" "[]", THEN conjunct1]
        start_stop_errors_are_logged_only [of countingEs "[Start]" "[]" "[]", THEN conjunct1]
  by (simp add: countingEs_def)

section \<open>Properties of the lazy persisted identifier\<close>

lemma EnsureDiagnosticId_cached:
  "diagnosticId s \<noteq> [] \<Longrightarrow> EnsureDiagnosticId env s = s"
  by (simp add: EnsureDiagnosticId_def)

lemma EnsureDiagnosticId_read_fails:
  "diagnosticId s = [] \<Longrightarrow> SystemGet env (Store s) = (Inl err, x1) \<Longrightarrow>
   EnsureDiagnosticId env s = s\<lparr>Store := x1, calls := calls s @ [CallSystemGet]\<rparr>"
  by (simp add: EnsureDiagnosticId_def System_Get_def)

lemma EnsureDiagnosticId_found:
  "diagnosticId s = [] \<Longrightarrow> SystemGet env (Store s) = (Inr props, x1) \<Longrightarrow>
   lookup props SYSTEM_DIAGNOSTIC_ID \<noteq> [] \<Longrightarrow>
   EnsureDiagnosticId env s =
     s\<lparr>Store := x1, calls := calls s @ [CallSystemGet],
       diagnosticId := lookup props SYSTEM_DIAGNOSTIC_ID\<rparr>"
  by (simp add: EnsureDiagnosticId_def System_Get_def)

lemma EnsureDiagnosticId_generates:
  "diagnosticId s = [] \<Longrightarrow> SystemGet env (Store s) = (Inr props, x1) \<Longrightarrow>
   lookup props SYSTEM_DIAGNOSTIC_ID = [] \<Longrightarrow> NewId env x1 = (fresh, x2) \<Longrightarrow>
   SystemSave env \<lparr>Name = SYSTEM_DIAGNOSTIC_ID, Value = fresh\<rparr> x2 = (r, x3) \<Longrightarrow>
   EnsureDiagnosticId env s =
     s\<lparr>Store := x3,
       calls := calls s @ [CallSystemGet, CallNewId,
                           CallSystemSave \<lparr>Name = SYSTEM_DIAGNOSTIC_ID, Value = fresh\<rparr>],
       diagnosticId := fresh\<rparr>"
  by (simp add: EnsureDiagnosticId_def System_Get_def model_NewId_def System_Save_def)

lemma EnsureDiagnosticId_reads_first:
  "diagnosticId s = [] \<Longrightarrow>
   take (Suc (length (calls s))) (calls (EnsureDiagnosticId env s)) = calls s @ [CallSystemGet]"
  by (simp add: EnsureDiagnosticId_def System_Get_def model_NewId_def System_Save_def Let_def
      split: prod.splits sum.splits)

text \<open>
  C4. \<^verbatim>\<open>EnsureDiagnosticId\<close>, for every server state and every store: (1) with a non-empty
  identifier in memory the state is returned as it is, no call crossing the boundary;
  (2) otherwise, when the read succeeds and the value under the fixed key is non-empty,
  the one call is the read and that value is cached; (3) when the read succeeds and the
  value is absent or empty, the calls are the read, one generation of an identifier and
  one save of it under the fixed key, in this order, and it is cached; (4) when the read
  fails, the one call is the read, the identifier in memory stays empty, and the next call
  starts by reading again.
\<close>

theorem ensure_diagnostic_id_cases:
  "(diagnosticId s \<noteq> [] \<longrightarrow> EnsureDiagnosticId env s = s)
   \<and> (diagnosticId s = [] \<and> SystemGet env (Store s) = (Inr props, x1)
        \<and> lookup props SYSTEM_DIAGNOSTIC_ID \<noteq> [] \<longrightarrow>
      EnsureDiagnosticId env s =
        s\<lparr>Store := x1, calls := calls s @ [CallSystemGet],
          diagnosticId := lookup props SYSTEM_DIAGNOSTIC_ID\<rparr>)
   \<and> (diagnosticId s = [] \<and> SystemGet env (Store s) = (Inr props, x1)
        \<and> lookup props SYSTEM_DIAGNOSTIC_ID = [] \<and> NewId env x1 = (fresh, x2)
        \<and> SystemSave env \<lparr>Name = SYSTEM_DIAGNOSTIC_ID, Value = fresh\<rparr> x2 = (r, x3) \<longrightarrow>
      EnsureDiagnosticId env s =
        s\<lparr>Store := x3,
          calls := calls s @ [CallSystemGet, CallNewId,
                              CallSystemSave \<lparr>Name = SYSTEM_DIAGNOSTIC_ID, Value = fresh\<rparr>],
          diagnosticId := fresh\<rparr>)
   \<and> (diagnosticId s = [] \<and> SystemGet env (Store s) = (Inl err, x1) \<longrightarrow>
      EnsureDiagnosticId env s = s\<lparr>Store := x1, calls := calls s @ [CallSystemGet]\<rparr>
      \<and> diagnosticId (EnsureDiagnosticId env s) = []
      \<and> take (length (calls s) + 2) (calls (EnsureDiagnosticId env (EnsureDiagnosticId env s)))
          = calls s @ [CallSystemGet, CallSystemGet])"
proof (intro conjI impI)
  assume "diagnosticId s \<noteq> []"
  then show "EnsureDiagnosticId env s = s" by (rule EnsureDiagnosticId_cached)
next
  assume "diagnosticId s = [] \<and> SystemGet env (Store s) = (Inr props, x1)
        \<and> lookup props SYSTEM_DIAGNOSTIC_ID \<noteq> []"
  then show "EnsureDiagnosticId env s =
        s\<lparr>Store := x1, calls := calls s @ [CallSystemGet],
          diagnosticId := lookup props SYSTEM_DIAGNOSTIC_ID\<rparr>"
    by (simp add: EnsureDiagnosticId_found)
next
  assume "diagnosticId s = [] \<and> SystemGet env (Store s) = (Inr props, x1)
        \<and> lookup props SYSTEM_DIAGNOSTIC_ID = [] \<and> NewId env x1 = (fresh, x2)
        \<and> SystemSave env \<lparr>Name = SYSTEM_DIAGNOSTIC_ID, Value = fresh\<rparr> x2 = (r, x3)"
  then show "EnsureDiagnosticId env s =
        s\<lparr>Store := x3,
          calls := calls s @ [CallSystemGet, CallNewId,
                              CallSystemSave \<lparr>Name = SYSTEM_DIAGNOSTIC_ID, Value = fresh\<rparr>],
          diagnosticId := fresh\<rparr>"
    by (simp add: EnsureDiagnosticId_generates)
next
  assume a: "diagnosticId s = [] \<and> SystemGet env (Store s) = (Inl err, x1)"
  then show e: "EnsureDiagnosticId env s = s\<lparr>Store := x1, calls := calls s @ [CallSystemGet]\<rparr>"
    by (simp add: EnsureDiagnosticId_read_fails)
  from a e show d: "diagnosticId (EnsureDiagnosticId env s) = []" by simp
  from EnsureDiagnosticId_reads_first [OF d, of env] e
  show "take (length (calls s) + 2) (calls (EnsureDiagnosticId env (EnsureDiagnosticId env s)))
          = calls s @ [CallSystemGet, CallSystemGet]"
    by simp
qed

lemma mem_env_simps:
  "SystemGet mem_env x = (case getError x of
                      Some e \<Rightarrow> (Inl e, x)
                    | None \<Rightarrow> (Inr (map_of (rows x)), x))"
  "SystemSave mem_env row x = (case saveError x of
                      Some e \<Rightarrow> (Some e, x)
                    | None \<Rightarrow> (None, x\<lparr>rows := (Name row, Value row) # rows x\<rparr>))"
  "NewId mem_env x = (case idSource x of
                      [] \<Rightarrow> (''id'', x)
                    | i # rest \<Rightarrow> (i, x\<lparr>idSource := rest\<rparr>))"
  by (simp_all add: mem_env_def)

theorem ensure_diagnostic_id_cases_witness:
  "EnsureDiagnosticId mem_env srvCached = srvCached
   \<and> EnsureDiagnosticId mem_env srvStored
       = srvStored\<lparr>calls := [CallSystemGet], diagnosticId := ''stored''\<rparr>
   \<and> EnsureDiagnosticId mem_env srv0
       = srv0\<lparr>Store := world0\<lparr>idSource := [''fresh2''], rows := [(''DiagnosticId'', ''fresh1'')]\<rparr>,
              calls := [CallSystemGet, CallNewId,
                        CallSystemSave \<lparr>Name = ''DiagnosticId'', Value = ''fresh1''\<rparr>],
              diagnosticId := ''fresh1''\<rparr>
   \<and> EnsureDiagnosticId mem_env srvReadFails = srvReadFails\<lparr>calls := [CallSystemGet]\<rparr>
   \<and> take (length (calls srvReadFails) + 2)
         (calls (EnsureDiagnosticId mem_env (EnsureDiagnosticId mem_env srvReadFails)))
       = calls srvReadFails @ [CallSystemGet, CallSystemGet]"
proof -
  have 1: "EnsureDiagnosticId mem_env srvCached = srvCached"
    using ensure_diagnostic_id_cases [of srvCached mem_env, THEN conjunct1]
    by (simp add: srvCached_def)
  have 2: "EnsureDiagnosticId mem_env srvStored
       = srvStored\<lparr>calls := [CallSystemGet], diagnosticId := ''stored''\<rparr>"
    using ensure_diagnostic_id_cases [of srvStored mem_env "map_of [(''DiagnosticId'', ''stored'')]"
            "world0\<lparr>rows := [(''DiagnosticId'', ''stored'')]\<rparr>", THEN conjunct2, THEN conjunct1]
    by (simp add: srvStored_def srv0_def world0_def mem_env_simps lookup_def SYSTEM_DIAGNOSTIC_ID_def)
  have 3: "EnsureDiagnosticId mem_env srv0
       = srv0\<lparr>Store := world0\<lparr>idSource := [''fresh2''], rows := [(''DiagnosticId'', ''fresh1'')]\<rparr>,
              calls := [CallSystemGet, CallNewId,
                        CallSystemSave \<lparr>Name = ''DiagnosticId'', Value = ''fresh1''\<rparr>],
              diagnosticId := ''fresh1''\<rparr>"
    using ensure_diagnostic_id_cases [of srv0 mem_env "map_of []" world0 "''fresh1''"
            "world0\<lparr>idSource := [''fresh2'']\<rparr>" None
            "world0\<lparr>idSource := [''fresh2''], rows := [(''DiagnosticId'', ''fresh1'')]\<rparr>",
            THEN conjunct2, THEN conjunct2, THEN conjunct1]
    by (simp add: srv0_def world0_def mem_env_simps lookup_def SYSTEM_DIAGNOSTIC_ID_def)
  have h4: "diagnosticId srvReadFails = []
        \<and> SystemGet mem_env (Store srvReadFails) = (Inl dbDown, world0\<lparr>getError := Some dbDown\<rparr>)"
    by (simp add: srvReadFails_def srv0_def world0_def mem_env_simps)
  note r4 = ensure_diagnostic_id_cases [of srvReadFails mem_env _ "world0\<lparr>getError := Some dbDown\<rparr>"
            _ _ _ _ dbDown, THEN conjunct2, THEN conjunct2, THEN conjunct2, THEN mp, OF h4]
  have 4: "EnsureDiagnosticId mem_env srvReadFails = srvReadFails\<lparr>calls := [CallSystemGet]\<rparr>"
    using r4 [THEN conjunct1] by (simp add: srvReadFails_def srv0_def)
  note 5 = r4 [THEN conjunct2, THEN conjunct2]
  from 1 2 3 4 5 show ?thesis by blast
qed


lemma EnsureDiagnosticId_funpow:
  "diagnosticId s \<noteq> [] \<Longrightarrow> (EnsureDiagnosticId env ^^ n) s = s"
  by (induction n) (simp_all add: EnsureDiagnosticId_cached)

text \<open>
  C5. Once the identifier in memory is non-empty, any number of further calls leaves the
  whole state as it is: no call crosses the store boundary, nothing is generated, and the
  cached value stays the same. In particular this holds after a call that filled the
  cache.
\<close>

theorem ensure_diagnostic_id_idempotent:
  "(diagnosticId s \<noteq> [] \<longrightarrow>
      (EnsureDiagnosticId env ^^ n) s = s
      \<and> calls ((EnsureDiagnosticId env ^^ n) s) = calls s
      \<and> Store ((EnsureDiagnosticId env ^^ n) s) = Store s
      \<and> diagnosticId ((EnsureDiagnosticId env ^^ n) s) = diagnosticId s)
   \<and> (diagnosticId (EnsureDiagnosticId env s0) \<noteq> [] \<longrightarrow>
      (EnsureDiagnosticId env ^^ n) (EnsureDiagnosticId env s0) = EnsureDiagnosticId env s0)"
  by (simp add: EnsureDiagnosticId_funpow)

theorem ensure_diagnostic_id_idempotent_witness:
  "(EnsureDiagnosticId mem_env ^^ 5) srvCached = srvCached
   \<and> calls ((EnsureDiagnosticId mem_env ^^ 5) srvCached) = []
   \<and> diagnosticId ((EnsureDiagnosticId mem_env ^^ 5) srvCached) = ''abc''"
proof -
  have h: "diagnosticId srvCached \<noteq> []" by (simp add: srvCached_def)
  note r = ensure_diagnostic_id_idempotent [where s = srvCached and env = mem_env and n = 5, THEN conjunct1, THEN mp, OF h]
  have 1: "(EnsureDiagnosticId mem_env ^^ 5) srvCached = srvCached"
    using r [THEN conjunct1] .
  have 2: "calls ((EnsureDiagnosticId mem_env ^^ 5) srvCached) = []"
    using r [THEN conjunct2, THEN conjunct1] by (simp add: srvCached_def srv0_def)
  have 3: "diagnosticId ((EnsureDiagnosticId mem_env ^^ 5) srvCached) = ''abc''"
    using r [THEN conjunct2, THEN conjunct2, THEN conjunct2] by (simp add: srvCached_def)
  from 1 2 3 show ?thesis by blast
qed

lemma srvSaveFails_run:
  "EnsureDiagnosticId mem_env srvSaveFails
     = srvSaveFails\<lparr>Store := world0\<lparr>saveError := Some dbDown, idSource := [''fresh2'']\<rparr>,
                    calls := [CallSystemGet, CallNewId,
                              CallSystemSave \<lparr>Name = ''DiagnosticId'', Value = ''fresh1''\<rparr>],
                    diagnosticId := ''fresh1''\<rparr>"
  by (simp add: EnsureDiagnosticId_def System_Get_def model_NewId_def System_Save_def
        srvSaveFails_def srv0_def world0_def mem_env_simps lookup_def SYSTEM_DIAGNOSTIC_ID_def)

text \<open>
  C10. When the identifier is generated and the save of it fails, the error is dropped:
  the fresh identifier is cached all the same, and the state is the one a successful save
  would have given with this store state. With the in-memory store whose writes fail, the
  identifier in memory is then non-empty while the table holds no row.
\<close>

theorem ensure_diagnostic_id_ignores_save_failure:
  "(diagnosticId s = [] \<and> SystemGet env (Store s) = (Inr props, x1)
      \<and> lookup props SYSTEM_DIAGNOSTIC_ID = [] \<and> NewId env x1 = (fresh, x2)
      \<and> SystemSave env \<lparr>Name = SYSTEM_DIAGNOSTIC_ID, Value = fresh\<rparr> x2 = (Some err, x3) \<longrightarrow>
    diagnosticId (EnsureDiagnosticId env s) = fresh
    \<and> EnsureDiagnosticId env s =
        s\<lparr>Store := x3,
          calls := calls s @ [CallSystemGet, CallNewId,
                              CallSystemSave \<lparr>Name = SYSTEM_DIAGNOSTIC_ID, Value = fresh\<rparr>],
          diagnosticId := fresh\<rparr>)
   \<and> (\<exists>w :: mem_world server.
        diagnosticId w = []
        \<and> diagnosticId (EnsureDiagnosticId mem_env w) \<noteq> []
        \<and> rows (Store (EnsureDiagnosticId mem_env w)) = []
        \<and> lookup (map_of (rows (Store (EnsureDiagnosticId mem_env w)))) SYSTEM_DIAGNOSTIC_ID = [])"
proof (intro conjI impI)
  assume a: "diagnosticId s = [] \<and> SystemGet env (Store s) = (Inr props, x1)
      \<and> lookup props SYSTEM_DIAGNOSTIC_ID = [] \<and> NewId env x1 = (fresh, x2)
      \<and> SystemSave env \<lparr>Name = SYSTEM_DIAGNOSTIC_ID, Value = fresh\<rparr> x2 = (Some err, x3)"
  then show e: "EnsureDiagnosticId env s =
        s\<lparr>Store := x3,
          calls := calls s @ [CallSystemGet, CallNewId,
                              CallSystemSave \<lparr>Name = SYSTEM_DIAGNOSTIC_ID, Value = fresh\<rparr>],
          diagnosticId := fresh\<rparr>"
    by (simp add: EnsureDiagnosticId_generates)
  then show "diagnosticId (EnsureDiagnosticId env s) = fresh" by simp
next
  show "\<exists>w :: mem_world server.
        diagnosticId w = []
        \<and> diagnosticId (EnsureDiagnosticId mem_env w) \<noteq> []
        \<and> rows (Store (EnsureDiagnosticId mem_env w)) = []
        \<and> lookup (map_of (rows (Store (EnsureDiagnosticId mem_env w)))) SYSTEM_DIAGNOSTIC_ID = []"
    by (rule exI [of _ srvSaveFails])
       (simp add: srvSaveFails_run, simp add: srvSaveFails_def srv0_def world0_def lookup_def)
qed

theorem ensure_diagnostic_id_ignores_save_failure_witness:
  "diagnosticId srvSaveFails = []
   \<and> diagnosticId (EnsureDiagnosticId mem_env srvSaveFails) = ''fresh1''
   \<and> calls (EnsureDiagnosticId mem_env srvSaveFails)
       = [CallSystemGet, CallNewId, CallSystemSave \<lparr>Name = ''DiagnosticId'', Value = ''fresh1''\<rparr>]
   \<and> rows (Store (EnsureDiagnosticId mem_env srvSaveFails)) = []"
proof -
  have h: "diagnosticId srvSaveFails = [] \<and>
     SystemGet mem_env (Store srvSaveFails) = (Inr (map_of []), world0\<lparr>saveError := Some dbDown\<rparr>) \<and>
     lookup (map_of []) SYSTEM_DIAGNOSTIC_ID = [] \<and>
     NewId mem_env (world0\<lparr>saveError := Some dbDown\<rparr>)
       = (''fresh1'', world0\<lparr>saveError := Some dbDown, idSource := [''fresh2'']\<rparr>) \<and>
     SystemSave mem_env \<lparr>Name = SYSTEM_DIAGNOSTIC_ID, Value = ''fresh1''\<rparr>
        (world0\<lparr>saveError := Some dbDown, idSource := [''fresh2'']\<rparr>)
       = (Some dbDown, world0\<lparr>saveError := Some dbDown, idSource := [''fresh2'']\<rparr>)"
    by (simp add: srvSaveFails_def srv0_def world0_def mem_env_simps lookup_def)
  note r = ensure_diagnostic_id_ignores_save_failure [THEN conjunct1, THEN mp, OF h]
  have 0: "diagnosticId srvSaveFails = []" using h by blast
  have 1: "diagnosticId (EnsureDiagnosticId mem_env srvSaveFails) = ''fresh1''"
    using r [THEN conjunct1] .
  have 2: "calls (EnsureDiagnosticId mem_env srvSaveFails)
       = [CallSystemGet, CallNewId, CallSystemSave \<lparr>Name = ''DiagnosticId'', Value = ''fresh1''\<rparr>]"
    using r [THEN conjunct2]
    by (simp add: srvSaveFails_def srv0_def SYSTEM_DIAGNOSTIC_ID_def)
  have 3: "rows (Store (EnsureDiagnosticId mem_env srvSaveFails)) = []"
    using r [THEN conjunct2] by (simp add: world0_def)
  from 0 1 2 3 show ?thesis by blast
qed

section \<open>Properties of the installation date\<close>

lemma decimal_ge: "n \<le> decimal n cs"
proof (induction cs arbitrary: n)
  case Nil
  show ?case by simp
next
  case (Cons c cs)
  have "n \<le> n * 10 + ((of_char c :: nat) - 48)" by simp
  also have "\<dots> \<le> decimal (n * 10 + ((of_char c :: nat) - 48)) cs" by (rule Cons.IH)
  finally show ?case by simp
qed

lemma parseUintLoop_step:
  assumes "isDigit c"
  shows "parseUintLoop n (c # cs) =
         (if n * 10 + ((of_char c :: nat) - 48) \<le> maxUint64
          then parseUintLoop (n * 10 + ((of_char c :: nat) - 48)) cs else Inl ErrRange)"
proof -
  define d where "d = (of_char c :: nat) - 48"
  have d: "d \<le> 9" using assms unfolding d_def isDigit_def by linarith
  have dig: "48 \<le> (of_char c :: nat) \<and> (of_char c :: nat) \<le> 57"
    using assms by (simp add: isDigit_def)
  show ?thesis
  proof (cases "n * 10 + d \<le> maxUint64")
    case True
    then have lt: "n * 10 + d < 2 ^ 64" "n * 10 < 2 ^ 64" by (simp_all add: maxUint64_def)
    from True have nc: "\<not> n \<ge> maxUint64 div 10 + 1" by (simp add: maxUint64_def)
    from lt have m: "(n * 10) mod 2 ^ 64 = n * 10" "(n * 10 + d) mod 2 ^ 64 = n * 10 + d"
      by simp_all
    show ?thesis using True dig nc m
      by (simp add: d_def [symmetric] Let_def)
  next
    case False
    show ?thesis
    proof (cases "n \<ge> maxUint64 div 10 + 1")
      case True
      then show ?thesis using False dig by (simp add: d_def [symmetric] Let_def)
    next
      case nc: False
      then have lt: "n * 10 < 2 ^ 64" by (simp add: maxUint64_def)
      from False have ge: "2 ^ 64 \<le> n * 10 + d" by (simp add: maxUint64_def)
      from lt d have "n * 10 + d < 2 * 2 ^ 64" by simp
      with ge have "(n * 10 + d) mod 2 ^ 64 = n * 10 + d - 2 ^ 64"
        by (simp add: mod_if le_mod_geq)
      with d ge have "(n * 10 + d) mod 2 ^ 64 < n * 10" by simp
      then show ?thesis using False dig nc lt
        by (simp add: d_def [symmetric] Let_def)
    qed
  qed
qed

lemma parseUintLoop_Cons:
  "parseUintLoop n (c # cs) =
     (if isDigit c
      then (if n * 10 + ((of_char c :: nat) - 48) \<le> maxUint64
            then parseUintLoop (n * 10 + ((of_char c :: nat) - 48)) cs else Inl ErrRange)
      else Inl ErrSyntax)"
proof (cases "isDigit c")
  case True
  then show ?thesis by (simp only: parseUintLoop_step [OF True] if_True)
next
  case False
  then show ?thesis by (auto simp: isDigit_def)
qed

lemma parseUintLoop_Inr:
  "(parseUintLoop n cs = Inr m) =
     (list_all isDigit cs \<and> m = decimal n cs \<and> (cs \<noteq> [] \<longrightarrow> m \<le> maxUint64))"
proof (induction cs arbitrary: n)
  case Nil
  show ?case by auto
next
  case (Cons c cs)
  let ?k = "n * 10 + ((of_char c :: nat) - 48)"
  show ?case
  proof (cases "isDigit c \<and> ?k \<le> maxUint64")
    case True
    then have "parseUintLoop n (c # cs) = parseUintLoop ?k cs"
      by (simp only: parseUintLoop_Cons if_True)
    moreover have "cs = [] \<Longrightarrow> decimal ?k cs \<le> maxUint64" using True by simp
    ultimately show ?thesis using True Cons.IH [of ?k] by auto
  next
    case False
    then have e: "\<exists>e. parseUintLoop n (c # cs) = Inl e"
      by (simp only: parseUintLoop_Cons split: if_splits) auto
    have "isDigit c \<Longrightarrow> decimal ?k cs > maxUint64"
      using False decimal_ge [of ?k cs] by simp
    then show ?thesis using e by auto
  qed
qed

lemma ParseUint_Inr:
  "(ParseUint s = Inr m) = (s \<noteq> [] \<and> list_all isDigit s \<and> m = decimal 0 s \<and> m \<le> maxUint64)"
  by (auto simp: ParseUint_def parseUintLoop_Inr)

lemma ParseInt_body:
  assumes "s = c # cs" and "body = (if c = CHR ''+'' \<or> c = CHR ''-'' then cs else s)"
      and "neg = (c = CHR ''-'')"
  shows "ParseInt s =
     (case ParseUint body of
        Inl e \<Rightarrow> Inl e
      | Inr u \<Rightarrow>
          (if \<not> neg \<and> u \<ge> 2 ^ 63 then Inl ErrRange
           else if neg \<and> u > 2 ^ 63 then Inl ErrRange
           else Inr (if neg then - int u else int u)))"
  using assms
  by (auto simp: ParseInt_def Let_def maxUint64_def split: sum.splits num_error.splits)

lemma int64_text_body:
  assumes "s = c # cs" and "body = (if c = CHR ''+'' \<or> c = CHR ''-'' then cs else s)"
      and "neg = (c = CHR ''-'')"
  shows "int64_text s =
     (if body \<noteq> [] \<and> list_all isDigit body
         \<and> - (2 ^ 63) \<le> (if neg then - int (decimal 0 body) else int (decimal 0 body))
         \<and> (if neg then - int (decimal 0 body) else int (decimal 0 body)) < 2 ^ 63
      then Some (if neg then - int (decimal 0 body) else int (decimal 0 body)) else None)"
  using assms by (simp add: int64_text_def Let_def)

lemma ParseInt_refines:
  "(ParseInt s = Inr v) = (int64_text s = Some v)"
proof (cases s)
  case Nil
  then show ?thesis by (simp add: ParseInt_def int64_text_def)
next
  case (Cons c cs)
  define body where "body = (if c = CHR ''+'' \<or> c = CHR ''-'' then cs else s)"
  define neg where "neg = (c = CHR ''-'')"
  note P = ParseInt_body [OF Cons body_def neg_def]
  note T = int64_text_body [OF Cons body_def neg_def]
  show ?thesis
  proof (cases "ParseUint body")
    case (Inr u)
    then have b: "body \<noteq> []" "list_all isDigit body" "decimal 0 body = u" "u \<le> maxUint64"
      by (simp_all add: ParseUint_Inr)
    show ?thesis
      unfolding P T Inr using b by (cases neg) auto
  next
    case (Inl e)
    have big: "body \<noteq> [] \<and> list_all isDigit body \<Longrightarrow> decimal 0 body > maxUint64"
      using Inl ParseUint_Inr [of body "decimal 0 body"] by auto
    show ?thesis
      unfolding P T Inl using big by (cases neg) (auto simp: maxUint64_def)
  qed
qed

lemma ParseInt_fails:
  "(\<exists>e. ParseInt s = Inl e) = (int64_text s = None)"
proof (cases "ParseInt s")
  case (Inl e)
  then have "\<forall>v. int64_text s \<noteq> Some v" using ParseInt_refines [of s] by simp
  with Inl show ?thesis by auto
next
  case (Inr v)
  then have "int64_text s = Some v" using ParseInt_refines [of s v] by simp
  with Inr show ?thesis by simp
qed

lemma mem_env_GetByName:
  "SystemGetByName mem_env k x =
     (case getError x of
        Some e \<Rightarrow> (Inl e, x)
      | None \<Rightarrow>
          (case map_of (rows x) k of
             None \<Rightarrow> (Inl (NewAppError ''SqlSystemStore.GetByName''
                             ''store.sql_system.get_by_name.app_error'' (Detail k) 500), x)
           | Some v \<Rightarrow> (Inr \<lparr>Name = k, Value = v\<rparr>, x)))"
  by (simp add: mem_env_def)

lemma srvInstalled_read:
  "fst (SystemGetByName mem_env SYSTEM_INSTALLATION_DATE_KEY (Store (srvInstalled v)))
     = Inr \<lparr>Name = ''InstallationDate'', Value = v\<rparr>"
  by (simp add: mem_env_GetByName srvInstalled_def srv0_def world0_def
        SYSTEM_INSTALLATION_DATE_KEY_def)

lemma srvReadFails_read:
  "fst (SystemGetByName mem_env SYSTEM_INSTALLATION_DATE_KEY (Store srvReadFails)) = Inl dbDown"
  by (simp add: mem_env_GetByName srvReadFails_def srv0_def world0_def)

lemma int64_text_samples:
  "int64_text ''1537984000000'' = Some 1537984000000"
  "int64_text ''12a'' = None"
  by (simp_all add: int64_text_def isDigit_def)

lemma getSystemInstallDate_eq:
  "fst (getSystemInstallDate env s) =
     (case fst (SystemGetByName env SYSTEM_INSTALLATION_DATE_KEY (Store s)) of
        Inl err \<Rightarrow> (0, Some err)
      | Inr row \<Rightarrow>
          (case ParseInt (Value row) of
             Inl e \<Rightarrow> (0, Some (NewAppError ''getSystemInstallDate''
                                  ''app.system_install_date.parse_int.app_error''
                                  (NumErrorText ''ParseInt'' (Value row) e)
                                  StatusInternalServerError))
           | Inr v \<Rightarrow> (v, None)))"
  by (simp add: getSystemInstallDate_def System_GetByName_def split: prod.splits sum.splits)

text \<open>
  C7. \<^verbatim>\<open>getSystemInstallDate\<close> returns an error exactly when the lookup of the
  installation-date key fails or the stored value is not a base-10 64-bit integer. A store
  error comes back unchanged beside the value 0; a value that does not parse gives the
  value 0 and the application error built by \<^verbatim>\<open>NewAppError\<close> with status 500; otherwise
  the integer the text denotes comes back with no error.
\<close>

theorem install_date_errors:
  fixes env :: "'x env" and s :: "'x server"
  defines "r \<equiv> fst (SystemGetByName env SYSTEM_INSTALLATION_DATE_KEY (Store s))"
      and "out \<equiv> fst (getSystemInstallDate env s)"
  shows "(\<forall>err. r = Inl err \<longrightarrow> out = (0, Some err))
       \<and> (\<forall>row. r = Inr row \<and> int64_text (Value row) = None \<longrightarrow>
            (\<exists>e. out = (0, Some (NewAppError ''getSystemInstallDate''
                                   ''app.system_install_date.parse_int.app_error''
                                   (NumErrorText ''ParseInt'' (Value row) e) 500))))
       \<and> (\<forall>row v. r = Inr row \<and> int64_text (Value row) = Some v \<longrightarrow> out = (v, None))
       \<and> ((snd out \<noteq> None) =
            ((\<exists>err. r = Inl err) \<or> (\<exists>row. r = Inr row \<and> int64_text (Value row) = None)))"
proof (intro conjI allI impI)
  fix err assume "r = Inl err"
  then show "out = (0, Some err)"
    by (simp add: out_def r_def getSystemInstallDate_eq)
next
  fix row assume a: "r = Inr row \<and> int64_text (Value row) = None"
  then obtain e where "ParseInt (Value row) = Inl e" using ParseInt_fails [of "Value row"] by auto
  with a show "\<exists>e. out = (0, Some (NewAppError ''getSystemInstallDate''
                                   ''app.system_install_date.parse_int.app_error''
                                   (NumErrorText ''ParseInt'' (Value row) e) 500))"
    by (auto simp: out_def r_def getSystemInstallDate_eq StatusInternalServerError_def)
next
  fix row v assume a: "r = Inr row \<and> int64_text (Value row) = Some v"
  then have "ParseInt (Value row) = Inr v" by (simp add: ParseInt_refines)
  with a show "out = (v, None)"
    by (simp add: out_def r_def getSystemInstallDate_eq)
next
  show "(snd out \<noteq> None) =
            ((\<exists>err. r = Inl err) \<or> (\<exists>row. r = Inr row \<and> int64_text (Value row) = None))"
  proof (cases r)
    case (Inl err)
    then show ?thesis by (simp add: out_def r_def getSystemInstallDate_eq)
  next
    case (Inr row)
    show ?thesis
    proof (cases "ParseInt (Value row)")
      case (Inl e)
      then have "int64_text (Value row) = None" using ParseInt_fails [of "Value row"] by auto
      with Inl Inr show ?thesis by (simp add: out_def r_def getSystemInstallDate_eq)
    next
      case v: (Inr v)
      then have "int64_text (Value row) = Some v" by (simp add: ParseInt_refines)
      with v Inr show ?thesis by (simp add: out_def r_def getSystemInstallDate_eq)
    qed
  qed
qed

theorem install_date_errors_witness:
  "fst (getSystemInstallDate mem_env (srvInstalled ''1537984000000'')) = (1537984000000, None)
   \<and> (\<exists>e. fst (getSystemInstallDate mem_env (srvInstalled ''12a''))
            = (0, Some (NewAppError ''getSystemInstallDate''
                          ''app.system_install_date.parse_int.app_error''
                          (NumErrorText ''ParseInt'' ''12a'' e) 500)))
   \<and> snd (fst (getSystemInstallDate mem_env (srvInstalled ''12a''))) \<noteq> None
   \<and> fst (getSystemInstallDate mem_env srvReadFails) = (0, Some dbDown)"
proof -
  have 1: "fst (getSystemInstallDate mem_env (srvInstalled ''1537984000000'')) = (1537984000000, None)"
    using install_date_errors [of mem_env "srvInstalled ''1537984000000''",
            THEN conjunct2, THEN conjunct2, THEN conjunct1, THEN spec, THEN spec,
            of "\<lparr>Name = ''InstallationDate'', Value = ''1537984000000''\<rparr>" 1537984000000]
    by (simp add: srvInstalled_read int64_text_samples)
  have 2: "\<exists>e. fst (getSystemInstallDate mem_env (srvInstalled ''12a''))
            = (0, Some (NewAppError ''getSystemInstallDate''
                          ''app.system_install_date.parse_int.app_error''
                          (NumErrorText ''ParseInt'' ''12a'' e) 500))"
    using install_date_errors [of mem_env "srvInstalled ''12a''",
            THEN conjunct2, THEN conjunct1, THEN spec,
            of "\<lparr>Name = ''InstallationDate'', Value = ''12a''\<rparr>"]
    by (simp add: srvInstalled_read int64_text_samples)
  have 3: "snd (fst (getSystemInstallDate mem_env (srvInstalled ''12a''))) \<noteq> None"
    using install_date_errors [of mem_env "srvInstalled ''12a''",
            THEN conjunct2, THEN conjunct2, THEN conjunct2]
    by (simp add: srvInstalled_read int64_text_samples)
  have 4: "fst (getSystemInstallDate mem_env srvReadFails) = (0, Some dbDown)"
    using install_date_errors [of mem_env srvReadFails, THEN conjunct1, THEN spec, of dbDown]
    by (simp add: srvReadFails_read)
  from 1 2 3 4 show ?thesis by blast
qed

section \<open>Properties of the job subsystem bootstrapper\<close>

lemma initJobs_slots:
  "DataRetentionJob (initJobs g fakeApp iw isc)
     = map_option (\<lambda>f. f fakeApp) (jobsDataRetentionJobInterface g)"
  "MessageExportJob (initJobs g fakeApp iw isc)
     = map_option (\<lambda>f. f fakeApp) (jobsMessageExportJobInterface g)"
  "ElasticsearchAggregator (initJobs g fakeApp iw isc)
     = map_option (\<lambda>f. f fakeApp) (jobsElasticsearchAggregatorInterface g)"
  "ElasticsearchIndexer (initJobs g fakeApp iw isc)
     = map_option (\<lambda>f. f fakeApp) (jobsElasticsearchIndexerInterface g)"
  "LdapSync (initJobs g fakeApp iw isc)
     = map_option (\<lambda>f. f fakeApp) (jobsLdapSyncInterface g)"
  "Migrations (initJobs g fakeApp iw isc)
     = map_option (\<lambda>f. f fakeApp) (jobsMigrationsInterface g)"
  by (simp_all add: initJobs_def NewJobServer_def Let_def split: option.splits)

lemma initJobs_sets:
  "Workers (initJobs g fakeApp iw isc)
     = Some (iw ((initJobs g fakeApp iw isc)\<lparr>Workers := None, Schedulers := None\<rparr>))"
  "Schedulers (initJobs g fakeApp iw isc)
     = Some (isc ((initJobs g fakeApp iw isc)\<lparr>Schedulers := None\<rparr>))"
  by (simp_all add: initJobs_def NewJobServer_def Let_def split: option.splits)

text \<open>
  C6. \<^verbatim>\<open>initJobs\<close> builds a job server in which each of the six producer slots holds what
  its factory makes of the application handle when the factory is present, and nothing
  when it is absent; there is no error outcome. The worker set is \<open>InitWorkers\<close> of the
  server with all six slots in their final state (and no worker or scheduler set yet),
  and the scheduler set is \<open>InitSchedulers\<close> of that server with the worker set in place.
\<close>

theorem init_jobs_attaches_present_factories:
  fixes g :: "('a, 'j) job_interfaces" and fakeApp :: 'a
    and InitWorkers :: "('j, 'w, 'c) job_server \<Rightarrow> 'w"
    and InitSchedulers :: "('j, 'w, 'c) job_server \<Rightarrow> 'c"
  defines "js \<equiv> initJobs g fakeApp InitWorkers InitSchedulers"
  shows "DataRetentionJob js = map_option (\<lambda>f. f fakeApp) (jobsDataRetentionJobInterface g)
       \<and> MessageExportJob js = map_option (\<lambda>f. f fakeApp) (jobsMessageExportJobInterface g)
       \<and> ElasticsearchAggregator js
           = map_option (\<lambda>f. f fakeApp) (jobsElasticsearchAggregatorInterface g)
       \<and> ElasticsearchIndexer js
           = map_option (\<lambda>f. f fakeApp) (jobsElasticsearchIndexerInterface g)
       \<and> LdapSync js = map_option (\<lambda>f. f fakeApp) (jobsLdapSyncInterface g)
       \<and> Migrations js = map_option (\<lambda>f. f fakeApp) (jobsMigrationsInterface g)
       \<and> Workers js = Some (InitWorkers (js\<lparr>Workers := None, Schedulers := None\<rparr>))
       \<and> Schedulers js = Some (InitSchedulers (js\<lparr>Schedulers := None\<rparr>))"
  unfolding js_def
  by (intro conjI) (rule initJobs_slots initJobs_sets)+

theorem init_jobs_attaches_present_factories_witness:
  "attached (initJobs someFactories ''app'' attached attached) = [''app:retention'', ''app:ldap'']
   \<and> Workers (initJobs someFactories ''app'' attached attached)
       = Some [''app:retention'', ''app:ldap'']
   \<and> Schedulers (initJobs someFactories ''app'' attached attached)
       = Some [''app:retention'', ''app:ldap'']
   \<and> attached (initJobs noFactories ''app'' attached attached) = []
   \<and> Workers (initJobs noFactories ''app'' attached attached) = Some []
   \<and> Schedulers (initJobs noFactories ''app'' attached attached) = Some []"
proof -
  note s = init_jobs_attaches_present_factories [of someFactories "''app''" attached attached]
  note n = init_jobs_attaches_present_factories [of noFactories "''app''" attached attached]
  have 1: "attached (initJobs someFactories ''app'' attached attached)
             = [''app:retention'', ''app:ldap'']"
    using s by (simp add: attached_def someFactories_def noFactories_def)
  have 2: "Workers (initJobs someFactories ''app'' attached attached)
             = Some [''app:retention'', ''app:ldap'']"
    using s by (simp add: attached_def someFactories_def noFactories_def)
  have 3: "Schedulers (initJobs someFactories ''app'' attached attached)
             = Some [''app:retention'', ''app:ldap'']"
    using s by (simp add: attached_def someFactories_def noFactories_def)
  have 4: "attached (initJobs noFactories ''app'' attached attached) = []"
    using n by (simp add: attached_def noFactories_def)
  have 5: "Workers (initJobs noFactories ''app'' attached attached) = Some []"
    using n by (simp add: attached_def noFactories_def)
  have 6: "Schedulers (initJobs noFactories ''app'' attached attached) = Some []"
    using n by (simp add: attached_def noFactories_def)
  from 1 2 3 4 5 6 show ?thesis by blast
qed

end
